theory Spec2Isabelle
  imports Complex_Main
begin

section \<open>The weekly record (types.ts)\<close>

text \<open>
  The interface \<open>WeeklyRecord\<close> of the application. A field declared with \<open>?\<close> in the
  source may be absent (\<open>undefined\<close>): it is an \<open>option\<close> here, \<open>None\<close> standing
  for the absent field. A \<open>number\<close> of the source is a real number here: the model covers
  the finite values and leaves the rounding of the machine's doubles out. The field
  \<open>id\<close> of the source is \<open>record_id\<close>, since \<open>id\<close> is the identity function of HOL.
\<close>

record WeeklyRecord =
  record_id :: string
  weekDate :: string
  createdAt :: "string option"
  salesCompletedAt :: "string option"
  totalHens :: real
  totalLiveWeight :: real
  purchaseRate :: real
  totalPurchaseCost :: real
  isSalesEntryComplete :: bool
  sellingPrice :: "real option"
  cashCollected :: "real option"
  upiCollected :: "real option"
  expenseTea :: "real option"
  expenseFuel :: "real option"
  totalExpenses :: "real option"
  totalRevenue :: "real option"
  meatSold :: "real option"
  wastage :: "real option"
  wastagePercentage :: "real option"
  netProfit :: "real option"
  profitPerHen :: "real option"
  profitPerKg :: "real option"

section \<open>Metrics derivation (utils/calculations.ts)\<close>

text \<open>
  The expression \<open>x || 0\<close> on an optional number: \<open>undefined\<close> and \<open>0\<close> are falsy and
  give the right operand, any other number is returned as it is.
\<close>

definition or_zero :: "real option \<Rightarrow> real" where
  "or_zero x = (case x of None \<Rightarrow> 0 | Some v \<Rightarrow> (if v = 0 then 0 else v))"

text \<open>
  \<open>calculateRecordMetrics\<close>, the function the specification calls \<open>deriveMetrics\<close>. The
  object spread \<open>{...record, f, g}\<close> is a record update: every field of \<open>record\<close> is
  copied and the listed ones are overwritten. Local constants of the source carry a
  prime where a field of the record has the same name.
\<close>

definition calculateRecordMetrics :: "WeeklyRecord \<Rightarrow> WeeklyRecord" where
  "calculateRecordMetrics record =
    (let totalPurchaseCost' = totalLiveWeight record * purchaseRate record in
     if \<not> isSalesEntryComplete record then
       record\<lparr>totalPurchaseCost := totalPurchaseCost'\<rparr>
     else
       let sellingPrice' = or_zero (sellingPrice record);
           cash = or_zero (cashCollected record);
           upi = or_zero (upiCollected record);
           expenseTea' = or_zero (expenseTea record);
           expenseFuel' = or_zero (expenseFuel record);
           totalRevenue' = cash + upi;
           meatSold' = (if sellingPrice' > 0 then totalRevenue' / sellingPrice' else 0);
           wastage' = totalLiveWeight record - meatSold';
           wastagePercentage' =
             (if totalLiveWeight record > 0
              then (wastage' / totalLiveWeight record) * 100 else 0);
           totalExpenses' = expenseTea' + expenseFuel';
           netProfit' = totalRevenue' - (totalPurchaseCost' + totalExpenses');
           profitPerHen' =
             (if totalHens record > 0 then netProfit' / totalHens record else 0);
           profitPerKg' = (if meatSold' > 0 then netProfit' / meatSold' else 0)
       in record\<lparr>totalPurchaseCost := totalPurchaseCost',
                 totalRevenue := Some totalRevenue',
                 meatSold := Some meatSold',
                 wastage := Some wastage',
                 wastagePercentage := Some wastagePercentage',
                 totalExpenses := Some totalExpenses',
                 netProfit := Some netProfit',
                 profitPerHen := Some profitPerHen',
                 profitPerKg := Some profitPerKg'\<rparr>)"

section \<open>Form inputs\<close>

text \<open>
  The forms keep what the operator typed as strings. Every numeric field of both forms is
  an \<open>input\<close> element of type \<open>number\<close>, whose value is the empty string or the text
  of a number: \<open>Empty\<close> is the empty string and \<open>Numeric v\<close> a text that \<open>Number\<close>
  converts to \<open>v\<close>. \<open>Number\<close> of the empty string is \<open>0\<close>, and the empty string is
  the only falsy string (\<open>blank\<close> is the test \<open>!s\<close>).
\<close>

datatype input = Empty | Numeric real

fun Number :: "input \<Rightarrow> real" where
  "Number Empty = 0"
| "Number (Numeric v) = v"

fun blank :: "input \<Rightarrow> bool" where
  "blank Empty = True"
| "blank (Numeric v) = False"

text \<open>\<open>Number.isInteger\<close> on a finite number.\<close>

definition isInteger :: "real \<Rightarrow> bool" where
  "isInteger x = (of_int \<lfloor>x\<rfloor> = x)"

text \<open>
  The error object of a form maps the name of a field to a message. A check of the
  form \<open>if (bad) { newErrors.key = msg; isValid = false; }\<close> is \<open>report bad key msg\<close>
  on the pair of the error object and the flag \<open>isValid\<close>.
\<close>

type_synonym errors = "string \<rightharpoonup> string"

definition report :: "bool \<Rightarrow> string \<Rightarrow> string \<Rightarrow> errors \<times> bool \<Rightarrow> errors \<times> bool" where
  "report bad key msg st = (if bad then ((fst st)(key \<mapsto> msg), False) else st)"

section \<open>The purchase form (components/PurchaseForm.tsx)\<close>

record PurchaseFormData =
  pf_date :: string
  pf_totalHens :: input
  pf_totalLiveWeight :: input
  pf_purchaseRate :: input

definition PurchaseForm_validate :: "PurchaseFormData \<Rightarrow> errors \<times> bool" where
  "PurchaseForm_validate formData =
    (let st0 = (Map.empty, True);
         st1 = report (pf_date formData = []) ''date'' ''Date is required'' st0;
         hens = Number (pf_totalHens formData);
         st2 = report (blank (pf_totalHens formData) \<or> hens \<le> 0 \<or> \<not> isInteger hens)
                 ''totalHens'' ''Must be a positive whole number'' st1;
         weight = Number (pf_totalLiveWeight formData);
         st3 = report (blank (pf_totalLiveWeight formData) \<or> weight \<le> 0)
                 ''totalLiveWeight'' ''Weight must be greater than 0'' st2;
         rate = Number (pf_purchaseRate formData);
         st4 = report (blank (pf_purchaseRate formData) \<or> rate \<le> 0)
                 ''purchaseRate'' ''Rate must be greater than 0'' st3
     in st4)"

text \<open>
  \<open>handleSubmit\<close> of the purchase form. \<open>existingRecord\<close> is the record being edited,
  if any, and \<open>now\<close> the text of the current time (\<open>new Date().toISOString()\<close>). A
  rejected submission returns after storing the errors (\<open>Inl\<close>) and \<open>onSave\<close> is not
  called; an accepted one passes the record built here to \<open>onSave\<close> (\<open>Inr\<close>). The
  object literal lists no computed field but \<open>totalPurchaseCost\<close>, so the others are
  absent from the record.
\<close>

definition PurchaseForm_handleSubmit ::
  "WeeklyRecord option \<Rightarrow> PurchaseFormData \<Rightarrow> string \<Rightarrow> errors + WeeklyRecord" where
  "PurchaseForm_handleSubmit existingRecord formData now =
    (let (newErrors, isValid) = PurchaseForm_validate formData in
     if \<not> isValid then Inl newErrors
     else Inr
       \<lparr>record_id =
          (case existingRecord of None \<Rightarrow> []
           | Some e \<Rightarrow> (if record_id e = [] then [] else record_id e)),
        weekDate = pf_date formData,
        createdAt =
          Some (case Option.bind existingRecord createdAt of None \<Rightarrow> now
                | Some c \<Rightarrow> (if c = [] then now else c)),
        salesCompletedAt = Option.bind existingRecord salesCompletedAt,
        totalHens = Number (pf_totalHens formData),
        totalLiveWeight = Number (pf_totalLiveWeight formData),
        purchaseRate = Number (pf_purchaseRate formData),
        totalPurchaseCost = 0,
        isSalesEntryComplete =
          (case existingRecord of None \<Rightarrow> False
           | Some e \<Rightarrow> isSalesEntryComplete e \<or> False),
        sellingPrice = Option.bind existingRecord sellingPrice,
        cashCollected = Option.bind existingRecord cashCollected,
        upiCollected = Option.bind existingRecord upiCollected,
        expenseTea = Option.bind existingRecord expenseTea,
        expenseFuel = Option.bind existingRecord expenseFuel,
        totalExpenses = None,
        totalRevenue = None,
        meatSold = None,
        wastage = None,
        wastagePercentage = None,
        netProfit = None,
        profitPerHen = None,
        profitPerKg = None\<rparr>)"

section \<open>The sales form (components/SalesForm.tsx)\<close>

record SalesFormData =
  sf_totalHens :: input
  sf_totalLiveWeight :: input
  sf_purchaseRate :: input
  sf_sellingPrice :: input
  sf_cashCollected :: input
  sf_upiCollected :: input
  sf_expenseTea :: input
  sf_expenseFuel :: input

text \<open>
  The initial content of the form, taken from the record it is attached to: the text
  of a number is never empty, and an absent sales field gives the empty string.
\<close>

definition toStringOrEmpty :: "real option \<Rightarrow> input" where
  "toStringOrEmpty x = (case x of None \<Rightarrow> Empty | Some v \<Rightarrow> Numeric v)"

definition SalesForm_initial :: "WeeklyRecord \<Rightarrow> SalesFormData" where
  "SalesForm_initial record =
    \<lparr>sf_totalHens = Numeric (totalHens record),
     sf_totalLiveWeight = Numeric (totalLiveWeight record),
     sf_purchaseRate = Numeric (purchaseRate record),
     sf_sellingPrice = toStringOrEmpty (sellingPrice record),
     sf_cashCollected = toStringOrEmpty (cashCollected record),
     sf_upiCollected = toStringOrEmpty (upiCollected record),
     sf_expenseTea = toStringOrEmpty (expenseTea record),
     sf_expenseFuel = toStringOrEmpty (expenseFuel record)\<rparr>"

definition SalesForm_validate :: "SalesFormData \<Rightarrow> errors \<times> bool" where
  "SalesForm_validate formData =
    (let st0 = (Map.empty, True);
         hens = Number (sf_totalHens formData);
         st1 = report (blank (sf_totalHens formData) \<or> hens \<le> 0 \<or> \<not> isInteger hens)
                 ''totalHens'' ''Must be a positive whole number'' st0;
         weight = Number (sf_totalLiveWeight formData);
         st2 = report (blank (sf_totalLiveWeight formData) \<or> weight \<le> 0)
                 ''totalLiveWeight'' ''Weight must be > 0'' st1;
         rate = Number (sf_purchaseRate formData);
         st3 = report (blank (sf_purchaseRate formData) \<or> rate \<le> 0)
                 ''purchaseRate'' ''Rate must be > 0'' st2;
         price = Number (sf_sellingPrice formData);
         st4 = report (blank (sf_sellingPrice formData) \<or> price \<le> 0)
                 ''sellingPrice'' ''Price must be greater than 0'' st3;
         st5 = report (Number (sf_cashCollected formData) < 0)
                 ''cashCollected'' ''Cannot be negative'' st4;
         st6 = report (Number (sf_upiCollected formData) < 0)
                 ''upiCollected'' ''Cannot be negative'' st5;
         st7 = report (price > 0 \<and>
                   Number (sf_cashCollected formData) + Number (sf_upiCollected formData) \<le> 0)
                 ''general'' ''Total revenue (Cash + UPI) must be greater than 0'' st6;
         st8 = report (Number (sf_expenseTea formData) < 0)
                 ''expenseTea'' ''Invalid'' st7;
         st9 = report (Number (sf_expenseFuel formData) < 0)
                 ''expenseFuel'' ''Invalid'' st8
     in st9)"

text \<open>
  \<open>handleSubmit\<close> of the sales form, attached to \<open>record\<close>; \<open>now\<close> is the text of
  the current time. The result is as for the purchase form: the errors of a rejected
  submission, or the record passed to \<open>onSave\<close>.
\<close>

definition SalesForm_handleSubmit ::
  "WeeklyRecord \<Rightarrow> SalesFormData \<Rightarrow> string \<Rightarrow> errors + WeeklyRecord" where
  "SalesForm_handleSubmit record formData now =
    (let (newErrors, isValid) = SalesForm_validate formData in
     if \<not> isValid then Inl newErrors
     else Inr
       (record\<lparr>totalHens := Number (sf_totalHens formData),
               totalLiveWeight := Number (sf_totalLiveWeight formData),
               purchaseRate := Number (sf_purchaseRate formData),
               isSalesEntryComplete := True,
               salesCompletedAt := Some now,
               sellingPrice := Some (Number (sf_sellingPrice formData)),
               cashCollected := Some (Number (sf_cashCollected formData)),
               upiCollected := Some (Number (sf_upiCollected formData)),
               expenseTea := Some (Number (sf_expenseTea formData)),
               expenseFuel := Some (Number (sf_expenseFuel formData))\<rparr>))"

text \<open>
  The live figures under the form and the condition of the warning
  ``Meat sold exceeds live weight!''. \<open>Number(s) || 0\<close> replaces a zero by zero.
\<close>

definition revenue :: "SalesFormData \<Rightarrow> real" where
  "revenue formData = Number (sf_cashCollected formData) + Number (sf_upiCollected formData)"

definition estMeatSold :: "SalesFormData \<Rightarrow> real" where
  "estMeatSold formData =
    (if Number (sf_sellingPrice formData) > 0
     then revenue formData / Number (sf_sellingPrice formData) else 0)"

definition currentLiveWeight :: "SalesFormData \<Rightarrow> real" where
  "currentLiveWeight formData =
    (if Number (sf_totalLiveWeight formData) = 0 then 0
     else Number (sf_totalLiveWeight formData))"

definition warningShown :: "SalesFormData \<Rightarrow> bool" where
  "warningShown formData = (estMeatSold formData > currentLiveWeight formData)"

section \<open>The operations on a stored record\<close>

text \<open>
  The three operations of the record lifecycle: an edit through the purchase form, a
  submission of the sales form, and the derivation of the metrics (which
  \<open>saveRecord\<close> applies to every record it is given). A rejected submission saves
  nothing, so the record stays as it was.
\<close>

datatype operation =
  PurchaseEdit PurchaseFormData string
| CompleteSales SalesFormData string
| DeriveMetrics

fun perform :: "operation \<Rightarrow> WeeklyRecord \<Rightarrow> WeeklyRecord" where
  "perform (PurchaseEdit formData now) record =
     (case PurchaseForm_handleSubmit (Some record) formData now of
        Inl newErrors \<Rightarrow> record | Inr updatedRecord \<Rightarrow> updatedRecord)"
| "perform (CompleteSales formData now) record =
     (case SalesForm_handleSubmit record formData now of
        Inl newErrors \<Rightarrow> record | Inr updatedRecord \<Rightarrow> updatedRecord)"
| "perform DeriveMetrics record = calculateRecordMetrics record"

fun perform_all :: "operation list \<Rightarrow> WeeklyRecord \<Rightarrow> WeeklyRecord" where
  "perform_all [] record = record"
| "perform_all (x # xs) record = perform_all xs (perform x record)"

section \<open>Sample records and forms\<close>

text \<open>
  The worked examples of the specification. \<open>purchase_example\<close> is a record in the
  purchase state (100 hens, 150 kg, rate 80), as the purchase form builds it.
\<close>

definition purchase_example :: WeeklyRecord where
  "purchase_example =
    \<lparr>record_id = ''r1'', weekDate = ''2024-01-06'',
     createdAt = Some ''2024-01-06T08:00:00.000Z'', salesCompletedAt = None,
     totalHens = 100, totalLiveWeight = 150, purchaseRate = 80, totalPurchaseCost = 0,
     isSalesEntryComplete = False,
     sellingPrice = None, cashCollected = None, upiCollected = None,
     expenseTea = None, expenseFuel = None,
     totalExpenses = None, totalRevenue = None, meatSold = None, wastage = None,
     wastagePercentage = None, netProfit = None, profitPerHen = None,
     profitPerKg = None\<rparr>"

text \<open>The week sold at a loss: price 100, cash 6000, UPI 4000, tea 50, fuel 100.\<close>

definition loss_example :: WeeklyRecord where
  "loss_example =
    purchase_example\<lparr>isSalesEntryComplete := True,
      salesCompletedAt := Some ''2024-01-07T18:00:00.000Z'',
      sellingPrice := Some 100, cashCollected := Some 6000, upiCollected := Some 4000,
      expenseTea := Some 50, expenseFuel := Some 100\<rparr>"

text \<open>Revenue without a selling price: price 0, cash 500, UPI 0, no expenses entered.\<close>

definition orphaned_revenue_example :: WeeklyRecord where
  "orphaned_revenue_example =
    purchase_example\<lparr>isSalesEntryComplete := True,
      salesCompletedAt := Some ''2024-01-07T18:00:00.000Z'',
      sellingPrice := Some 0, cashCollected := Some 500, upiCollected := Some 0\<rparr>"

text \<open>
  A sales form with more meat sold than live weight bought: 50 kg, price 10, cash 600,
  UPI 0; the expenses are left empty.
\<close>

definition oversold_form :: SalesFormData where
  "oversold_form =
    \<lparr>sf_totalHens = Numeric 30, sf_totalLiveWeight = Numeric 50,
     sf_purchaseRate = Numeric 80, sf_sellingPrice = Numeric 10,
     sf_cashCollected = Numeric 600, sf_upiCollected = Numeric 0,
     sf_expenseTea = Empty, sf_expenseFuel = Empty\<rparr>"

definition purchase_form_example :: PurchaseFormData where
  "purchase_form_example =
    \<lparr>pf_date = ''2024-01-06'', pf_totalHens = Numeric 100,
     pf_totalLiveWeight = Numeric 150, pf_purchaseRate = Numeric 80\<rparr>"

text \<open>The record that the oversold form gives: 60 kg sold out of 50 kg bought.\<close>

definition oversold_example :: WeeklyRecord where
  "oversold_example =
    purchase_example\<lparr>isSalesEntryComplete := True,
      salesCompletedAt := Some ''2024-01-07T18:00:00.000Z'',
      totalHens := 30, totalLiveWeight := 50,
      sellingPrice := Some 10, cashCollected := Some 600, upiCollected := Some 0,
      expenseTea := Some 0, expenseFuel := Some 0\<rparr>"

section \<open>Properties of the metrics derivation\<close>

lemma or_zero_eq: "or_zero x = (case x of None \<Rightarrow> 0 | Some v \<Rightarrow> v)"
  by (simp add: or_zero_def split: option.split)

lemmas calc_simps = calculateRecordMetrics_def Let_def or_zero_eq

text \<open>
  The record that the purchase form passes on has no sales-stage computed field: the
  object literal of \<open>handleSubmit\<close> does not list them.
\<close>

lemma PurchaseForm_handleSubmit_unset:
  "PurchaseForm_handleSubmit e pf now = Inr u \<Longrightarrow>
   totalRevenue u = None \<and> meatSold u = None \<and> wastage u = None \<and>
   wastagePercentage u = None \<and> totalExpenses u = None \<and> netProfit u = None \<and>
   profitPerHen u = None \<and> profitPerKg u = None"
  by (auto simp add: PurchaseForm_handleSubmit_def case_prod_beta split: if_splits)

text \<open>
  Claim C1. For every record, \<open>calculateRecordMetrics\<close> sets \<open>totalPurchaseCost\<close> to
  \<open>totalLiveWeight \<times> purchaseRate\<close>, whether the sales entry is complete or not. When
  it is not complete this is the only field the function sets: the result is the input
  with that one field overwritten. So for a record in the purchase state, whose
  sales-stage computed fields are unset, they are all still unset in the result; this
  is the case of every record in the purchase state that the purchase form passes on.
\<close>

theorem calculateRecordMetrics_purchase_cost:
  "totalPurchaseCost (calculateRecordMetrics r) = totalLiveWeight r * purchaseRate r \<and>
   (\<not> isSalesEntryComplete r \<longrightarrow>
      calculateRecordMetrics r =
        r\<lparr>totalPurchaseCost := totalLiveWeight r * purchaseRate r\<rparr>) \<and>
   (\<not> isSalesEntryComplete r \<and>
    (totalRevenue r = None \<and> meatSold r = None \<and> wastage r = None \<and>
     wastagePercentage r = None \<and> totalExpenses r = None \<and> netProfit r = None \<and>
     profitPerHen r = None \<and> profitPerKg r = None \<or>
     (\<exists>e pf now. PurchaseForm_handleSubmit e pf now = Inr r)) \<longrightarrow>
      totalRevenue (calculateRecordMetrics r) = None \<and>
      meatSold (calculateRecordMetrics r) = None \<and>
      wastage (calculateRecordMetrics r) = None \<and>
      wastagePercentage (calculateRecordMetrics r) = None \<and>
      totalExpenses (calculateRecordMetrics r) = None \<and>
      netProfit (calculateRecordMetrics r) = None \<and>
      profitPerHen (calculateRecordMetrics r) = None \<and>
      profitPerKg (calculateRecordMetrics r) = None)"
  (is "?cost \<and> ?only \<and> (?purchase_state \<longrightarrow> ?unset)")
proof -
  have cost: ?cost
    by (simp add: calculateRecordMetrics_def Let_def)
  have only: ?only
    by (simp add: calculateRecordMetrics_def Let_def)
  have unset: "?purchase_state \<longrightarrow> ?unset"
  proof
    assume ?purchase_state
    then have flag: "\<not> isSalesEntryComplete r"
      and none: "totalRevenue r = None \<and> meatSold r = None \<and> wastage r = None \<and>
        wastagePercentage r = None \<and> totalExpenses r = None \<and> netProfit r = None \<and>
        profitPerHen r = None \<and> profitPerKg r = None"
      using PurchaseForm_handleSubmit_unset [of _ _ _ r] by blast+
    from flag only have "calculateRecordMetrics r =
        r\<lparr>totalPurchaseCost := totalLiveWeight r * purchaseRate r\<rparr>"
      by (rule rev_mp)
    with none show ?unset
      by simp
  qed
  show ?thesis
    using cost only unset by (intro conjI)
qed

text \<open>
  The example of the specification: 100 hens, 150 kg at rate 80 cost 12000. The second
  record is the one the purchase form builds for a new week from the same figures.
\<close>

theorem calculateRecordMetrics_purchase_cost_witness:
  "\<not> isSalesEntryComplete purchase_example \<and>
   calculateRecordMetrics purchase_example =
     purchase_example\<lparr>totalPurchaseCost := 12000\<rparr> \<and>
   totalRevenue (calculateRecordMetrics purchase_example) = None \<and>
   meatSold (calculateRecordMetrics purchase_example) = None \<and>
   netProfit (calculateRecordMetrics purchase_example) = None \<and>
   PurchaseForm_handleSubmit None purchase_form_example ''2024-01-06T08:00:00.000Z'' =
     Inr (purchase_example\<lparr>record_id := []\<rparr>) \<and>
   calculateRecordMetrics (purchase_example\<lparr>record_id := []\<rparr>) =
     purchase_example\<lparr>record_id := [], totalPurchaseCost := 12000\<rparr> \<and>
   netProfit (calculateRecordMetrics (purchase_example\<lparr>record_id := []\<rparr>)) = None"
  using calculateRecordMetrics_purchase_cost [of purchase_example]
    calculateRecordMetrics_purchase_cost [of "purchase_example\<lparr>record_id := []\<rparr>"]
  by (simp add: purchase_example_def purchase_form_example_def
      PurchaseForm_handleSubmit_def PurchaseForm_validate_def report_def isInteger_def
      Let_def case_prod_beta)

text \<open>
  Claim C2. For every record whose sales entry is complete, \<open>totalRevenue\<close> is the sum
  of \<open>cashCollected\<close> and \<open>upiCollected\<close>, a missing one counting as 0, and \<open>meatSold\<close>
  is that revenue divided by \<open>sellingPrice\<close> when the price is positive and 0
  otherwise. In particular a selling price that is unset or zero gives \<open>meatSold = 0\<close>
  whatever the revenue: with price 0, cash 500 and UPI 0 the revenue is 500, no meat is
  sold, the wastage is the whole live weight, and the net profit is computed from the
  revenue of 500.
\<close>

theorem calculateRecordMetrics_revenue_meatSold:
  "isSalesEntryComplete r \<Longrightarrow>
   totalRevenue (calculateRecordMetrics r) =
     Some ((case cashCollected r of None \<Rightarrow> 0 | Some c \<Rightarrow> c) +
           (case upiCollected r of None \<Rightarrow> 0 | Some u \<Rightarrow> u)) \<and>
   meatSold (calculateRecordMetrics r) =
     Some (case sellingPrice r of None \<Rightarrow> 0
           | Some p \<Rightarrow>
               if p > 0
               then ((case cashCollected r of None \<Rightarrow> 0 | Some c \<Rightarrow> c) +
                     (case upiCollected r of None \<Rightarrow> 0 | Some u \<Rightarrow> u)) / p
               else 0) \<and>
   (sellingPrice r = None \<or> sellingPrice r = Some 0 \<longrightarrow>
      meatSold (calculateRecordMetrics r) = Some 0) \<and>
   (sellingPrice r = Some 0 \<and> cashCollected r = Some 500 \<and> upiCollected r = Some 0 \<longrightarrow>
      totalRevenue (calculateRecordMetrics r) = Some 500 \<and>
      meatSold (calculateRecordMetrics r) = Some 0 \<and>
      wastage (calculateRecordMetrics r) = Some (totalLiveWeight r) \<and>
      netProfit (calculateRecordMetrics r) =
        Some (500 - (totalPurchaseCost (calculateRecordMetrics r) +
                     the (totalExpenses (calculateRecordMetrics r)))))"
  by (auto simp add: calc_simps split: option.split)

theorem calculateRecordMetrics_revenue_meatSold_witness:
  "isSalesEntryComplete orphaned_revenue_example \<and>
   totalRevenue (calculateRecordMetrics orphaned_revenue_example) = Some 500 \<and>
   meatSold (calculateRecordMetrics orphaned_revenue_example) = Some 0 \<and>
   wastage (calculateRecordMetrics orphaned_revenue_example) = Some 150 \<and>
   netProfit (calculateRecordMetrics orphaned_revenue_example) = Some (- 11500)"
  using calculateRecordMetrics_revenue_meatSold [of orphaned_revenue_example]
  by (simp add: orphaned_revenue_example_def purchase_example_def calc_simps)

text \<open>
  Claim C3. For every record whose sales entry is complete, \<open>totalExpenses\<close> is the sum
  of \<open>expenseTea\<close> and \<open>expenseFuel\<close>, a missing one counting as 0, and \<open>netProfit\<close> is
  \<open>totalRevenue - (totalPurchaseCost + totalExpenses)\<close> of the result. Nothing clamps
  it: when the revenue is below the costs the net profit returned is negative. In the
  worked example (150 kg at rate 80, price 100, cash 6000, UPI 4000, tea 50, fuel 100)
  the net profit is \<open>10000 - (12000 + 150) = -2150\<close>.
\<close>

theorem calculateRecordMetrics_netProfit:
  "isSalesEntryComplete r \<Longrightarrow>
   totalExpenses (calculateRecordMetrics r) =
     Some ((case expenseTea r of None \<Rightarrow> 0 | Some t \<Rightarrow> t) +
           (case expenseFuel r of None \<Rightarrow> 0 | Some f \<Rightarrow> f)) \<and>
   (\<exists>rev ex p.
      totalRevenue (calculateRecordMetrics r) = Some rev \<and>
      totalExpenses (calculateRecordMetrics r) = Some ex \<and>
      netProfit (calculateRecordMetrics r) = Some p \<and>
      p = rev - (totalPurchaseCost (calculateRecordMetrics r) + ex) \<and>
      (rev < totalPurchaseCost (calculateRecordMetrics r) + ex \<longrightarrow> p < 0)) \<and>
   (totalLiveWeight r = 150 \<and> purchaseRate r = 80 \<and> sellingPrice r = Some 100 \<and>
    cashCollected r = Some 6000 \<and> upiCollected r = Some 4000 \<and>
    expenseTea r = Some 50 \<and> expenseFuel r = Some 100 \<longrightarrow>
      netProfit (calculateRecordMetrics r) = Some (- 2150))"
  by (auto simp add: calc_simps split: option.split)

theorem calculateRecordMetrics_netProfit_witness:
  "isSalesEntryComplete loss_example \<and>
   totalExpenses (calculateRecordMetrics loss_example) = Some 150 \<and>
   totalRevenue (calculateRecordMetrics loss_example) = Some 10000 \<and>
   totalPurchaseCost (calculateRecordMetrics loss_example) = 12000 \<and>
   netProfit (calculateRecordMetrics loss_example) = Some (- 2150)"
  using calculateRecordMetrics_netProfit [of loss_example]
  by (simp add: loss_example_def purchase_example_def calc_simps)

text \<open>
  Claim C4. For every record whose sales entry is complete, \<open>wastage\<close> is
  \<open>totalLiveWeight - meatSold\<close> with no clamping: whenever the meat sold exceeds the
  live weight, the wastage returned is negative.
\<close>

theorem calculateRecordMetrics_wastage_unclamped:
  "isSalesEntryComplete r \<Longrightarrow>
   (\<exists>m w.
      meatSold (calculateRecordMetrics r) = Some m \<and>
      wastage (calculateRecordMetrics r) = Some w \<and>
      w = totalLiveWeight r - m \<and>
      (m > totalLiveWeight r \<longrightarrow> w < 0))"
  by (auto simp add: calc_simps split: option.split)

theorem calculateRecordMetrics_wastage_unclamped_witness:
  "isSalesEntryComplete oversold_example \<and>
   meatSold (calculateRecordMetrics oversold_example) = Some 60 \<and>
   totalLiveWeight oversold_example = 50 \<and>
   wastage (calculateRecordMetrics oversold_example) = Some (- 10)"
  using calculateRecordMetrics_wastage_unclamped [of oversold_example]
  by (simp add: oversold_example_def purchase_example_def calc_simps)

text \<open>
  Claim C6. \<open>calculateRecordMetrics\<close> is idempotent: it reads only raw fields and
  overwrites computed ones, so deriving the metrics of an already derived record gives
  the same record.
\<close>

theorem calculateRecordMetrics_idempotent:
  "calculateRecordMetrics (calculateRecordMetrics r) = calculateRecordMetrics r"
  by (simp add: calculateRecordMetrics_def Let_def)

text \<open>
  Claim C10. For every record, \<open>calculateRecordMetrics\<close> changes at most the nine
  computed fields: the identifier, the week date, both timestamps, the purchase inputs,
  the completion flag and the five sales inputs of the result are those of the input.
\<close>

theorem calculateRecordMetrics_frame:
  "record_id (calculateRecordMetrics r) = record_id r \<and>
   weekDate (calculateRecordMetrics r) = weekDate r \<and>
   createdAt (calculateRecordMetrics r) = createdAt r \<and>
   salesCompletedAt (calculateRecordMetrics r) = salesCompletedAt r \<and>
   totalHens (calculateRecordMetrics r) = totalHens r \<and>
   totalLiveWeight (calculateRecordMetrics r) = totalLiveWeight r \<and>
   purchaseRate (calculateRecordMetrics r) = purchaseRate r \<and>
   isSalesEntryComplete (calculateRecordMetrics r) = isSalesEntryComplete r \<and>
   sellingPrice (calculateRecordMetrics r) = sellingPrice r \<and>
   cashCollected (calculateRecordMetrics r) = cashCollected r \<and>
   upiCollected (calculateRecordMetrics r) = upiCollected r \<and>
   expenseTea (calculateRecordMetrics r) = expenseTea r \<and>
   expenseFuel (calculateRecordMetrics r) = expenseFuel r"
  by (simp add: calculateRecordMetrics_def Let_def)

section \<open>Properties of the forms\<close>

lemma isInteger_iff: "isInteger x \<longleftrightarrow> x \<in> \<int>"
  unfolding isInteger_def by (metis Ints_of_int of_int_floor_cancel Ints_cases)

lemma snd_report: "snd (report bad key msg st) = (\<not> bad \<and> snd st)"
  by (simp add: report_def)

lemma mem_dom_report:
  "k \<in> dom (fst (report bad key msg st)) \<longleftrightarrow> (bad \<and> k = key) \<or> k \<in> dom (fst st)"
  by (auto simp add: report_def)

text \<open>The flag \<open>isValid\<close> is true exactly as long as no error has been stored.\<close>

lemma report_inv:
  "(snd st \<longleftrightarrow> fst st = Map.empty) \<Longrightarrow>
   (snd (report bad key msg st) \<longleftrightarrow> fst (report bad key msg st) = Map.empty)"
  by (simp add: report_def)

lemma blank_or_nonpositive: "blank x \<or> Number x \<le> 0 \<longleftrightarrow> \<not> 0 < Number x"
  by (cases x) auto

lemma not_positive_integer:
  "blank x \<or> Number x \<le> 0 \<or> \<not> isInteger (Number x) \<longleftrightarrow>
   \<not> (0 < Number x \<and> Number x \<in> \<int>)"
  by (cases x) (auto simp add: isInteger_iff)

subsection \<open>The purchase form\<close>

lemma PurchaseForm_validate_ok:
  "snd (PurchaseForm_validate pf) \<longleftrightarrow>
     pf_date pf \<noteq> [] \<and>
     0 < Number (pf_totalHens pf) \<and> Number (pf_totalHens pf) \<in> \<int> \<and>
     0 < Number (pf_totalLiveWeight pf) \<and>
     0 < Number (pf_purchaseRate pf)"
  unfolding PurchaseForm_validate_def Let_def snd_report blank_or_nonpositive
    not_positive_integer
  by (simp only: snd_conv simp_thms) auto

lemma PurchaseForm_validate_inv:
  "snd (PurchaseForm_validate pf) \<longleftrightarrow> fst (PurchaseForm_validate pf) = Map.empty"
  unfolding PurchaseForm_validate_def Let_def
  by (intro report_inv) simp

lemma PurchaseForm_validate_errors:
  "k \<in> dom (fst (PurchaseForm_validate pf)) \<longleftrightarrow>
     (k = ''date'' \<and> pf_date pf = []) \<or>
     (k = ''totalHens'' \<and>
        \<not> (0 < Number (pf_totalHens pf) \<and> Number (pf_totalHens pf) \<in> \<int>)) \<or>
     (k = ''totalLiveWeight'' \<and> \<not> 0 < Number (pf_totalLiveWeight pf)) \<or>
     (k = ''purchaseRate'' \<and> \<not> 0 < Number (pf_purchaseRate pf))"
  unfolding PurchaseForm_validate_def Let_def mem_dom_report blank_or_nonpositive
    not_positive_integer
  by (simp only: fst_conv dom_empty empty_iff simp_thms conj_ac disj_ac)

lemma PurchaseForm_handleSubmit_rejected:
  "\<not> snd (PurchaseForm_validate pf) \<Longrightarrow>
   PurchaseForm_handleSubmit e pf now = Inl (fst (PurchaseForm_validate pf))"
  by (simp add: PurchaseForm_handleSubmit_def case_prod_beta)

lemma PurchaseForm_handleSubmit_Inr_iff:
  "(\<exists>u. PurchaseForm_handleSubmit e pf now = Inr u) \<longleftrightarrow> snd (PurchaseForm_validate pf)"
  by (simp add: PurchaseForm_handleSubmit_def case_prod_beta)

lemma PurchaseForm_handleSubmit_flag:
  "PurchaseForm_handleSubmit (Some r) pf now = Inr u \<Longrightarrow>
   isSalesEntryComplete u = isSalesEntryComplete r"
  by (auto simp add: PurchaseForm_handleSubmit_def case_prod_beta split: if_splits)

subsection \<open>The sales form\<close>

lemma SalesForm_validate_ok:
  "snd (SalesForm_validate sf) \<longleftrightarrow>
     0 < Number (sf_totalHens sf) \<and> Number (sf_totalHens sf) \<in> \<int> \<and>
     0 < Number (sf_totalLiveWeight sf) \<and>
     0 < Number (sf_purchaseRate sf) \<and>
     0 < Number (sf_sellingPrice sf) \<and>
     0 \<le> Number (sf_cashCollected sf) \<and>
     0 \<le> Number (sf_upiCollected sf) \<and>
     (0 < Number (sf_sellingPrice sf) \<longrightarrow>
        0 < Number (sf_cashCollected sf) + Number (sf_upiCollected sf)) \<and>
     0 \<le> Number (sf_expenseTea sf) \<and>
     0 \<le> Number (sf_expenseFuel sf)"
  unfolding SalesForm_validate_def Let_def snd_report blank_or_nonpositive
    not_positive_integer
  by (simp only: snd_conv not_less simp_thms) (auto simp only: not_le)

lemma SalesForm_validate_inv:
  "snd (SalesForm_validate sf) \<longleftrightarrow> fst (SalesForm_validate sf) = Map.empty"
  unfolding SalesForm_validate_def Let_def
  by (intro report_inv) simp

lemma SalesForm_validate_errors:
  "k \<in> dom (fst (SalesForm_validate sf)) \<longleftrightarrow>
     (k = ''totalHens'' \<and>
        \<not> (0 < Number (sf_totalHens sf) \<and> Number (sf_totalHens sf) \<in> \<int>)) \<or>
     (k = ''totalLiveWeight'' \<and> \<not> 0 < Number (sf_totalLiveWeight sf)) \<or>
     (k = ''purchaseRate'' \<and> \<not> 0 < Number (sf_purchaseRate sf)) \<or>
     (k = ''sellingPrice'' \<and> \<not> 0 < Number (sf_sellingPrice sf)) \<or>
     (k = ''cashCollected'' \<and> Number (sf_cashCollected sf) < 0) \<or>
     (k = ''upiCollected'' \<and> Number (sf_upiCollected sf) < 0) \<or>
     (k = ''general'' \<and> 0 < Number (sf_sellingPrice sf) \<and>
        Number (sf_cashCollected sf) + Number (sf_upiCollected sf) \<le> 0) \<or>
     (k = ''expenseTea'' \<and> Number (sf_expenseTea sf) < 0) \<or>
     (k = ''expenseFuel'' \<and> Number (sf_expenseFuel sf) < 0)"
  unfolding SalesForm_validate_def Let_def mem_dom_report blank_or_nonpositive
    not_positive_integer
  by (simp only: fst_conv dom_empty empty_iff simp_thms conj_ac disj_ac)

lemma SalesForm_handleSubmit_rejected:
  "\<not> snd (SalesForm_validate sf) \<Longrightarrow>
   SalesForm_handleSubmit r sf now = Inl (fst (SalesForm_validate sf))"
  by (simp add: SalesForm_handleSubmit_def case_prod_beta)

lemma SalesForm_handleSubmit_accepted:
  "snd (SalesForm_validate sf) \<Longrightarrow>
   SalesForm_handleSubmit r sf now = Inr
       (r\<lparr>totalHens := Number (sf_totalHens sf),
          totalLiveWeight := Number (sf_totalLiveWeight sf),
          purchaseRate := Number (sf_purchaseRate sf),
          isSalesEntryComplete := True,
          salesCompletedAt := Some now,
          sellingPrice := Some (Number (sf_sellingPrice sf)),
          cashCollected := Some (Number (sf_cashCollected sf)),
          upiCollected := Some (Number (sf_upiCollected sf)),
          expenseTea := Some (Number (sf_expenseTea sf)),
          expenseFuel := Some (Number (sf_expenseFuel sf))\<rparr>)"
  by (simp add: SalesForm_handleSubmit_def case_prod_beta)

lemma SalesForm_handleSubmit_Inr_iff:
  "(\<exists>u. SalesForm_handleSubmit r sf now = Inr u) \<longleftrightarrow> snd (SalesForm_validate sf)"
  by (simp add: SalesForm_handleSubmit_def case_prod_beta)

lemma SalesForm_handleSubmit_flag:
  "SalesForm_handleSubmit r sf now = Inr u \<Longrightarrow> isSalesEntryComplete u"
  by (auto simp add: SalesForm_handleSubmit_def case_prod_beta split: if_splits)

text \<open>Evaluation of the forms on the sample inputs.\<close>

lemma isInteger_numeral: "isInteger (numeral n)"
  by (simp add: isInteger_def)

lemma not_isInteger_half: "\<not> isInteger (5 / 2)"
  by (simp add: isInteger_def)

lemmas form_eval = PurchaseForm_handleSubmit_def PurchaseForm_validate_def
  SalesForm_handleSubmit_def SalesForm_validate_def report_def Let_def case_prod_beta
  isInteger_iff [symmetric] isInteger_numeral not_isInteger_half

subsection \<open>The week date of a stored record\<close>

text \<open>
  The sales form has no date field: the week date of a sales submission is that of the
  record the form is attached to. Every such record comes from an accepted purchase
  submission, which requires the date, and no operation removes it.
\<close>

lemma PurchaseForm_handleSubmit_weekDate:
  "PurchaseForm_handleSubmit e pf now = Inr u \<Longrightarrow> weekDate u \<noteq> []"
  by (auto simp add: PurchaseForm_handleSubmit_def PurchaseForm_validate_def Let_def
      case_prod_beta snd_report split: if_splits)

lemma SalesForm_handleSubmit_weekDate:
  "SalesForm_handleSubmit r sf now = Inr u \<Longrightarrow> weekDate u = weekDate r"
  by (auto simp add: SalesForm_handleSubmit_def case_prod_beta split: if_splits)

lemma calculateRecordMetrics_weekDate:
  "weekDate (calculateRecordMetrics r) = weekDate r"
  by (simp add: calculateRecordMetrics_def Let_def)

lemma perform_keeps_date:
  assumes "weekDate r \<noteq> []"
  shows "weekDate (perform x r) \<noteq> []"
proof (cases x)
  case (PurchaseEdit pf now)
  with assms show ?thesis
    using PurchaseForm_handleSubmit_weekDate [of "Some r" pf now]
    by (simp split: sum.split)
next
  case (CompleteSales sf now)
  with assms show ?thesis
    using SalesForm_handleSubmit_weekDate [of r sf now]
    by (simp split: sum.split)
next
  case DeriveMetrics
  with assms show ?thesis
    by (simp add: calculateRecordMetrics_weekDate)
qed

lemma perform_all_keeps_date:
  "weekDate r \<noteq> [] \<Longrightarrow> weekDate (perform_all xs r) \<noteq> []"
  by (induction xs arbitrary: r) (simp_all add: perform_keeps_date)

subsection \<open>Validation\<close>

text \<open>
  Claim C8. A purchase submission is accepted (the record reaches \<open>onSave\<close>) if and
  only if the week date is present, \<open>totalHens\<close> is a positive integer,
  \<open>totalLiveWeight > 0\<close> and \<open>purchaseRate > 0\<close>. A sales submission, for a record
  \<open>r\<close> that an accepted purchase submission created and any sequence of operations
  has led to, is accepted if and only if additionally \<open>sellingPrice > 0\<close>,
  \<open>cashCollected \<ge> 0\<close>, \<open>upiCollected \<ge> 0\<close>, \<open>cashCollected + upiCollected > 0\<close>
  when a selling price is set, \<open>expenseTea \<ge> 0\<close> and \<open>expenseFuel \<ge> 0\<close>; an empty
  field counts as 0. The week date of that record is always present; the checks that
  \<open>validate\<close> of the sales form itself makes are those of the third conjunct, which
  holds of any record. A rejected submission of either form produces a non-empty error
  mapping and nothing is saved; the mapping has a key exactly for each check that
  failed (the key is the name of the field, and \<open>general\<close> for the revenue check).
\<close>

theorem validation_accepts_iff:
  "((\<exists>u. PurchaseForm_handleSubmit e pf now = Inr u) \<longleftrightarrow>
      pf_date pf \<noteq> [] \<and>
      0 < Number (pf_totalHens pf) \<and> Number (pf_totalHens pf) \<in> \<int> \<and>
      0 < Number (pf_totalLiveWeight pf) \<and>
      0 < Number (pf_purchaseRate pf)) \<and>
   (PurchaseForm_handleSubmit e0 pf0 now0 = Inr r0 \<and> r = perform_all xs r0 \<longrightarrow>
    ((\<exists>u. SalesForm_handleSubmit r sf now = Inr u) \<longleftrightarrow>
      weekDate r \<noteq> [] \<and>
      0 < Number (sf_totalHens sf) \<and> Number (sf_totalHens sf) \<in> \<int> \<and>
      0 < Number (sf_totalLiveWeight sf) \<and>
      0 < Number (sf_purchaseRate sf) \<and>
      0 < Number (sf_sellingPrice sf) \<and>
      0 \<le> Number (sf_cashCollected sf) \<and>
      0 \<le> Number (sf_upiCollected sf) \<and>
      (0 < Number (sf_sellingPrice sf) \<longrightarrow>
         0 < Number (sf_cashCollected sf) + Number (sf_upiCollected sf)) \<and>
      0 \<le> Number (sf_expenseTea sf) \<and>
      0 \<le> Number (sf_expenseFuel sf))) \<and>
   ((\<exists>u. SalesForm_handleSubmit r sf now = Inr u) \<longleftrightarrow>
      0 < Number (sf_totalHens sf) \<and> Number (sf_totalHens sf) \<in> \<int> \<and>
      0 < Number (sf_totalLiveWeight sf) \<and>
      0 < Number (sf_purchaseRate sf) \<and>
      0 < Number (sf_sellingPrice sf) \<and>
      0 \<le> Number (sf_cashCollected sf) \<and>
      0 \<le> Number (sf_upiCollected sf) \<and>
      (0 < Number (sf_sellingPrice sf) \<longrightarrow>
         0 < Number (sf_cashCollected sf) + Number (sf_upiCollected sf)) \<and>
      0 \<le> Number (sf_expenseTea sf) \<and>
      0 \<le> Number (sf_expenseFuel sf)) \<and>
   ((\<nexists>u. PurchaseForm_handleSubmit e pf now = Inr u) \<longrightarrow>
      (\<exists>newErrors. PurchaseForm_handleSubmit e pf now = Inl newErrors \<and>
         newErrors \<noteq> Map.empty \<and>
         (\<forall>k. k \<in> dom newErrors \<longleftrightarrow>
            (k = ''date'' \<and> pf_date pf = []) \<or>
            (k = ''totalHens'' \<and>
               \<not> (0 < Number (pf_totalHens pf) \<and> Number (pf_totalHens pf) \<in> \<int>)) \<or>
            (k = ''totalLiveWeight'' \<and> \<not> 0 < Number (pf_totalLiveWeight pf)) \<or>
            (k = ''purchaseRate'' \<and> \<not> 0 < Number (pf_purchaseRate pf))))) \<and>
   ((\<nexists>u. SalesForm_handleSubmit r sf now = Inr u) \<longrightarrow>
      (\<exists>newErrors. SalesForm_handleSubmit r sf now = Inl newErrors \<and>
         newErrors \<noteq> Map.empty \<and>
         (\<forall>k. k \<in> dom newErrors \<longleftrightarrow>
            (k = ''totalHens'' \<and>
               \<not> (0 < Number (sf_totalHens sf) \<and> Number (sf_totalHens sf) \<in> \<int>)) \<or>
            (k = ''totalLiveWeight'' \<and> \<not> 0 < Number (sf_totalLiveWeight sf)) \<or>
            (k = ''purchaseRate'' \<and> \<not> 0 < Number (sf_purchaseRate sf)) \<or>
            (k = ''sellingPrice'' \<and> \<not> 0 < Number (sf_sellingPrice sf)) \<or>
            (k = ''cashCollected'' \<and> Number (sf_cashCollected sf) < 0) \<or>
            (k = ''upiCollected'' \<and> Number (sf_upiCollected sf) < 0) \<or>
            (k = ''general'' \<and> 0 < Number (sf_sellingPrice sf) \<and>
               Number (sf_cashCollected sf) + Number (sf_upiCollected sf) \<le> 0) \<or>
            (k = ''expenseTea'' \<and> Number (sf_expenseTea sf) < 0) \<or>
            (k = ''expenseFuel'' \<and> Number (sf_expenseFuel sf) < 0))))"
  (is "?purchase_ok \<and> (?stored \<longrightarrow> ?sales_dated) \<and> ?sales_ok \<and>
       (?purchase_bad \<longrightarrow> ?purchase_errors) \<and> (?sales_bad \<longrightarrow> ?sales_errors)")
proof (intro conjI impI)
  show ?purchase_ok
    by (simp only: PurchaseForm_handleSubmit_Inr_iff PurchaseForm_validate_ok)
next
  show sales: ?sales_ok
    by (simp only: SalesForm_handleSubmit_Inr_iff SalesForm_validate_ok)
  assume ?stored
  then have "weekDate r \<noteq> []"
    using PurchaseForm_handleSubmit_weekDate [of e0 pf0 now0 r0]
      perform_all_keeps_date [of r0 xs]
    by blast
  with sales show ?sales_dated
    by (simp only: simp_thms)
next
  assume ?purchase_bad
  then have bad: "\<not> snd (PurchaseForm_validate pf)"
    by (simp add: PurchaseForm_handleSubmit_Inr_iff)
  show ?purchase_errors
  proof (intro exI conjI allI)
    show "PurchaseForm_handleSubmit e pf now = Inl (fst (PurchaseForm_validate pf))"
      using bad by (rule PurchaseForm_handleSubmit_rejected)
    show "fst (PurchaseForm_validate pf) \<noteq> Map.empty"
      using bad PurchaseForm_validate_inv [of pf] by blast
  qed (rule PurchaseForm_validate_errors)
next
  assume ?sales_bad
  then have bad: "\<not> snd (SalesForm_validate sf)"
    by (simp add: SalesForm_handleSubmit_Inr_iff)
  show ?sales_errors
  proof (intro exI conjI allI)
    show "SalesForm_handleSubmit r sf now = Inl (fst (SalesForm_validate sf))"
      using bad by (rule SalesForm_handleSubmit_rejected)
    show "fst (SalesForm_validate sf) \<noteq> Map.empty"
      using bad SalesForm_validate_inv [of sf] by blast
  qed (rule SalesForm_validate_errors)
qed

text \<open>
  The record that the purchase form builds for the sample week, saved (so with its
  metrics derived), then the oversold sales form submitted for it; and the rejected
  inputs of the specification: 2.5 hens, 0 hens, cash of -1, and no revenue at all.
\<close>

theorem validation_accepts_iff_witness:
  "(\<exists>u. PurchaseForm_handleSubmit None purchase_form_example
           ''2024-01-06T08:00:00.000Z'' = Inr u) \<and>
   PurchaseForm_handleSubmit None purchase_form_example ''2024-01-06T08:00:00.000Z'' =
     Inr (purchase_example\<lparr>record_id := []\<rparr>) \<and>
   weekDate (perform_all [DeriveMetrics] (purchase_example\<lparr>record_id := []\<rparr>)) =
     ''2024-01-06'' \<and>
   (\<exists>u. SalesForm_handleSubmit
           (perform_all [DeriveMetrics] (purchase_example\<lparr>record_id := []\<rparr>))
           oversold_form ''2024-01-06T08:00:00.000Z'' = Inr u) \<and>
   (\<exists>newErrors.
      PurchaseForm_handleSubmit None
        (purchase_form_example\<lparr>pf_totalHens := Numeric (5 / 2)\<rparr>)
        ''2024-01-06T08:00:00.000Z'' = Inl newErrors \<and>
      newErrors \<noteq> Map.empty \<and> ''totalHens'' \<in> dom newErrors) \<and>
   (\<exists>newErrors.
      PurchaseForm_handleSubmit None
        (purchase_form_example\<lparr>pf_totalHens := Numeric 0\<rparr>)
        ''2024-01-06T08:00:00.000Z'' = Inl newErrors \<and>
      newErrors \<noteq> Map.empty \<and> ''totalHens'' \<in> dom newErrors) \<and>
   (\<exists>newErrors.
      SalesForm_handleSubmit
        (perform_all [DeriveMetrics] (purchase_example\<lparr>record_id := []\<rparr>))
        (oversold_form\<lparr>sf_cashCollected := Numeric (- 1)\<rparr>)
        ''2024-01-06T08:00:00.000Z'' = Inl newErrors \<and>
      newErrors \<noteq> Map.empty \<and> ''cashCollected'' \<in> dom newErrors) \<and>
   (\<exists>newErrors.
      SalesForm_handleSubmit
        (perform_all [DeriveMetrics] (purchase_example\<lparr>record_id := []\<rparr>))
        (oversold_form\<lparr>sf_cashCollected := Numeric 0\<rparr>)
        ''2024-01-06T08:00:00.000Z'' = Inl newErrors \<and>
      newErrors \<noteq> Map.empty \<and> ''general'' \<in> dom newErrors)"
  using validation_accepts_iff
      [where e = None and pf = purchase_form_example
         and now = "''2024-01-06T08:00:00.000Z''"
         and ?e0.0 = None and ?pf0.0 = purchase_form_example
         and ?now0.0 = "''2024-01-06T08:00:00.000Z''"
         and ?r0.0 = "purchase_example\<lparr>record_id := []\<rparr>" and xs = "[DeriveMetrics]"
         and r = "perform_all [DeriveMetrics] (purchase_example\<lparr>record_id := []\<rparr>)"
         and sf = oversold_form]
    validation_accepts_iff
      [where e = None and pf = "purchase_form_example\<lparr>pf_totalHens := Numeric (5 / 2)\<rparr>"
         and now = "''2024-01-06T08:00:00.000Z''"
         and ?e0.0 = None and ?pf0.0 = purchase_form_example
         and ?now0.0 = "''2024-01-06T08:00:00.000Z''"
         and ?r0.0 = "purchase_example\<lparr>record_id := []\<rparr>" and xs = "[DeriveMetrics]"
         and r = "perform_all [DeriveMetrics] (purchase_example\<lparr>record_id := []\<rparr>)"
         and sf = "oversold_form\<lparr>sf_cashCollected := Numeric (- 1)\<rparr>"]
    validation_accepts_iff
      [where e = None and pf = "purchase_form_example\<lparr>pf_totalHens := Numeric 0\<rparr>"
         and now = "''2024-01-06T08:00:00.000Z''"
         and ?e0.0 = None and ?pf0.0 = purchase_form_example
         and ?now0.0 = "''2024-01-06T08:00:00.000Z''"
         and ?r0.0 = "purchase_example\<lparr>record_id := []\<rparr>" and xs = "[DeriveMetrics]"
         and r = "perform_all [DeriveMetrics] (purchase_example\<lparr>record_id := []\<rparr>)"
         and sf = "oversold_form\<lparr>sf_cashCollected := Numeric 0\<rparr>"]
  by (simp add: form_eval purchase_form_example_def oversold_form_def
      purchase_example_def calculateRecordMetrics_def)

subsection \<open>The completion timestamp\<close>

text \<open>
  Claim C5 says that submitting the sales form again for a record that is already
  complete preserves the original \<open>salesCompletedAt\<close>. \<open>handleSubmit\<close> stamps the
  current time on every accepted submission: for the completed week \<open>loss_example\<close>,
  opened in the sales form and submitted unchanged two days later, the record passed to
  \<open>onSave\<close> carries the time of the re-submission, not the time of completion. (The
  purchase form, in contrast, keeps an existing \<open>createdAt\<close>.)
\<close>

theorem SalesForm_resubmission_overwrites_salesCompletedAt:
  "isSalesEntryComplete loss_example \<and>
   salesCompletedAt loss_example = Some ''2024-01-07T18:00:00.000Z'' \<and>
   (\<exists>u. SalesForm_handleSubmit loss_example (SalesForm_initial loss_example)
          ''2024-01-09T09:30:00.000Z'' = Inr u \<and>
        salesCompletedAt u = Some ''2024-01-09T09:30:00.000Z'' \<and>
        salesCompletedAt u \<noteq> salesCompletedAt loss_example)"
  by (simp add: form_eval SalesForm_initial_def toStringOrEmpty_def loss_example_def
      purchase_example_def)

subsection \<open>The completion flag\<close>

lemma calculateRecordMetrics_flag:
  "isSalesEntryComplete (calculateRecordMetrics r) = isSalesEntryComplete r"
  by (simp add: calculateRecordMetrics_def Let_def)

lemma perform_flag:
  assumes "isSalesEntryComplete r"
  shows "isSalesEntryComplete (perform x r)"
proof (cases x)
  case (PurchaseEdit pf now)
  with assms show ?thesis
    using PurchaseForm_handleSubmit_flag [of r pf now]
    by (simp split: sum.split)
next
  case (CompleteSales sf now)
  with assms show ?thesis
    using SalesForm_handleSubmit_flag [of r sf now]
    by (simp split: sum.split)
next
  case DeriveMetrics
  with assms show ?thesis
    by (simp add: calculateRecordMetrics_flag)
qed

lemma perform_all_flag:
  "isSalesEntryComplete r \<Longrightarrow> isSalesEntryComplete (perform_all xs r)"
  by (induction xs arbitrary: r) (simp_all add: perform_flag)

text \<open>
  Claim C7. Once a record has \<open>isSalesEntryComplete = true\<close>, no operation yields a
  record with the flag false, whatever sequence of operations is performed: an edit
  through the purchase form preserves the flag of the record it edits, a submission of
  the sales form sets it to true, and \<open>calculateRecordMetrics\<close> leaves it unchanged.
\<close>

theorem isSalesEntryComplete_never_cleared:
  "isSalesEntryComplete r \<Longrightarrow>
     isSalesEntryComplete (perform_all xs r) \<and>
     (\<forall>pf now u. PurchaseForm_handleSubmit (Some r) pf now = Inr u \<longrightarrow>
        isSalesEntryComplete u) \<and>
     (\<forall>sf now u. SalesForm_handleSubmit r sf now = Inr u \<longrightarrow> isSalesEntryComplete u) \<and>
     isSalesEntryComplete (calculateRecordMetrics r)"
  using PurchaseForm_handleSubmit_flag [of r] SalesForm_handleSubmit_flag [of r]
  by (simp add: perform_all_flag calculateRecordMetrics_flag)

theorem isSalesEntryComplete_never_cleared_witness:
  "isSalesEntryComplete loss_example \<and>
   isSalesEntryComplete
     (perform_all
        [PurchaseEdit purchase_form_example ''2024-01-08T08:00:00.000Z'', DeriveMetrics,
         CompleteSales oversold_form ''2024-01-09T09:30:00.000Z'', DeriveMetrics]
        loss_example) \<and>
   isSalesEntryComplete (calculateRecordMetrics loss_example)"
  using isSalesEntryComplete_never_cleared [of loss_example
      "[PurchaseEdit purchase_form_example ''2024-01-08T08:00:00.000Z'', DeriveMetrics,
        CompleteSales oversold_form ''2024-01-09T09:30:00.000Z'', DeriveMetrics]"]
  by (simp add: loss_example_def)

subsection \<open>The consistency warning\<close>

text \<open>
  Claim C9. The warning is shown exactly when the meat sold, the revenue divided by the
  selling price (0 without a positive price), exceeds the live weight; for an accepted
  submission this is the \<open>meatSold\<close> that \<open>calculateRecordMetrics\<close> derives for the
  saved record, compared with its \<open>totalLiveWeight\<close>. The warning never blocks: a
  form that passes \<open>validate\<close> is submitted whether the warning is shown or not, and
  \<open>validate\<close> gives the same verdict for any two positive live weights, so it does
  not depend on how the live weight compares with the meat sold.
\<close>

theorem warningShown_never_blocks:
  "(warningShown sf \<longleftrightarrow>
      Number (sf_totalLiveWeight sf) <
        (if 0 < Number (sf_sellingPrice sf)
         then (Number (sf_cashCollected sf) + Number (sf_upiCollected sf)) /
              Number (sf_sellingPrice sf)
         else 0)) \<and>
   (\<forall>u. SalesForm_handleSubmit r sf now = Inr u \<longrightarrow>
      (warningShown sf \<longleftrightarrow>
         (\<exists>m. meatSold (calculateRecordMetrics u) = Some m \<and> totalLiveWeight u < m))) \<and>
   (snd (SalesForm_validate sf) \<and> warningShown sf \<longrightarrow>
      (\<exists>u. SalesForm_handleSubmit r sf now = Inr u)) \<and>
   (0 < w \<and> 0 < w' \<longrightarrow>
      snd (SalesForm_validate (sf\<lparr>sf_totalLiveWeight := Numeric w\<rparr>)) =
      snd (SalesForm_validate (sf\<lparr>sf_totalLiveWeight := Numeric w'\<rparr>)))"
  (is "?shown \<and> ?derived \<and> ?submitted \<and> ?independent")
proof (intro conjI)
  show ?shown
    by (simp add: warningShown_def estMeatSold_def revenue_def currentLiveWeight_def)
next
  show ?derived
  proof (intro allI impI)
    fix u
    assume submit: "SalesForm_handleSubmit r sf now = Inr u"
    then have "snd (SalesForm_validate sf)"
      using SalesForm_handleSubmit_Inr_iff [of r sf now] by blast
    then have "SalesForm_handleSubmit r sf now = Inr
       (r\<lparr>totalHens := Number (sf_totalHens sf),
          totalLiveWeight := Number (sf_totalLiveWeight sf),
          purchaseRate := Number (sf_purchaseRate sf),
          isSalesEntryComplete := True,
          salesCompletedAt := Some now,
          sellingPrice := Some (Number (sf_sellingPrice sf)),
          cashCollected := Some (Number (sf_cashCollected sf)),
          upiCollected := Some (Number (sf_upiCollected sf)),
          expenseTea := Some (Number (sf_expenseTea sf)),
          expenseFuel := Some (Number (sf_expenseFuel sf))\<rparr>)"
      by (rule SalesForm_handleSubmit_accepted)
    with submit have meat: "meatSold (calculateRecordMetrics u) = Some (estMeatSold sf)"
      and weight: "totalLiveWeight u = Number (sf_totalLiveWeight sf)"
      by (auto simp add: calculateRecordMetrics_def Let_def or_zero_eq estMeatSold_def
          revenue_def)
    show "warningShown sf \<longleftrightarrow>
        (\<exists>m. meatSold (calculateRecordMetrics u) = Some m \<and> totalLiveWeight u < m)"
      by (simp add: meat weight warningShown_def currentLiveWeight_def)
  qed
next
  show ?submitted
    by (simp add: SalesForm_handleSubmit_Inr_iff)
next
  show ?independent
    by (simp add: SalesForm_validate_ok)
qed

text \<open>
  The example of the specification: 50 kg bought, price 10, cash 600 and UPI 0 give 60 kg
  of meat sold; the warning is shown and the submission is accepted.
\<close>

theorem warningShown_never_blocks_witness:
  "estMeatSold oversold_form = 60 \<and> currentLiveWeight oversold_form = 50 \<and>
   warningShown oversold_form \<and> snd (SalesForm_validate oversold_form) \<and>
   (\<exists>u. SalesForm_handleSubmit purchase_example oversold_form
           ''2024-01-07T18:00:00.000Z'' = Inr u \<and>
        meatSold (calculateRecordMetrics u) = Some 60 \<and> totalLiveWeight u = 50)"
  using warningShown_never_blocks [of oversold_form purchase_example
      "''2024-01-07T18:00:00.000Z''" 50 40]
  by (simp add: form_eval warningShown_def estMeatSold_def revenue_def
      currentLiveWeight_def oversold_form_def calculateRecordMetrics_def or_zero_eq)

end
